theory Spec2Isabelle
  imports Main "HOL-Library.Word"
begin

text \<open>
  A model of the prayer reminder bot: the class \<open>WhatsAppBot\<close> (\<open>WhatsAppBot.ts\<close>), which
  wraps the client of the chat network, and the application \<open>PrayerReminderBot\<close> with
  \<open>main\<close> (\<open>index.ts\<close>), which schedules the daily poll and answers the commands. The
  client, the cron library and the process are outside these two files; the model keeps of
  them what the two files do to them: the calls made on the client, the tasks created and
  whether each runs, and whether the process has exited.
\<close>

section \<open>Strings and values of the host language\<close>

text \<open>
  A JavaScript string is a sequence of UTF-16 code units. ASCII literals of the source are
  written with \<open>js\<close>; literals with Arabic letters or emoji are written as their code units.
\<close>

type_synonym jsstring = "16 word list"

definition js :: "string \<Rightarrow> jsstring" where
  "js s = map (\<lambda>c. of_nat (of_char c)) s"

text \<open>Truthiness of an optional string: \<open>undefined\<close> and \<open>''\<close> are falsy.\<close>

definition truthy :: "jsstring option \<Rightarrow> bool" where
  "truthy v = (case v of None \<Rightarrow> False | Some s \<Rightarrow> s \<noteq> [])"

text \<open>\<open>a || d\<close> on an optional string and a default.\<close>

definition orDefault :: "jsstring option \<Rightarrow> jsstring \<Rightarrow> jsstring" where
  "orDefault v d = (case v of None \<Rightarrow> d | Some s \<Rightarrow> if s = [] then d else s)"

text \<open>\<open>String.prototype.endsWith\<close>.\<close>

definition endsWith :: "jsstring \<Rightarrow> jsstring \<Rightarrow> bool" where
  "endsWith s suffix =
     (length suffix \<le> length s \<and> drop (length s - length suffix) s = suffix)"

text \<open>A thrown \<open>Error\<close> object, identified by its message.\<close>

datatype error = Error jsstring

text \<open>
  How the promise returned by the transport's \<open>client.sendMessage\<close> settles: fulfilled with
  a message (an opaque handle), rejected with an \<open>Error\<close> carrying a message, or rejected
  with a value that is not an \<open>Error\<close>.
\<close>

datatype outcome = Fulfilled nat | RejectedError jsstring | RejectedOther

section \<open>WhatsAppBot\<close>

record sendOptions =
  mentions :: "jsstring list option"
  quoted :: "jsstring option"

record poll =
  pollName :: jsstring
  pollOptions :: "jsstring list"
  allowMultiple :: bool

text \<open>An inbound message: the fields \<open>from\<close> and \<open>body\<close> the handlers read.\<close>

record message =
  msg_from :: jsstring
  msg_body :: jsstring

text \<open>
  The calls that reach the transport: \<open>client.sendMessage(chatId, content, sendOptions)\<close>,
  \<open>client.sendMessage(chatId, poll)\<close>, and \<open>message.reply(text)\<close>.
\<close>

datatype call =
    SendText jsstring jsstring sendOptions
  | SendPoll jsstring poll
  | Reply message jsstring

record sendMessageOptions =
  chatId :: jsstring
  content :: jsstring
  parseMentionsOpt :: "bool option"
  quotedMessageId :: "jsstring option"

record sendPollOptions =
  pollChatId :: jsstring
  question :: jsstring
  options :: "jsstring list"
  allowMultipleAnswers :: "bool option"

text \<open>
  The bot object: the flag \<open>isInitialized\<close> and, standing for the \<open>client\<close>, the calls
  made on it so far. Console output is not part of the model.
\<close>

record whatsAppBot =
  isInitialized :: bool
  client_calls :: "call list"

definition newWhatsAppBot :: whatsAppBot where
  "newWhatsAppBot = \<lparr>isInitialized = False, client_calls = []\<rparr>"

definition NOT_INITIALIZED :: jsstring where
  "NOT_INITIALIZED = js ''Bot is not initialized. Call initialize() first.''"

definition TOO_FEW_OPTIONS :: jsstring where
  "TOO_FEW_OPTIONS = js ''Poll must have at least 2 options''"

definition TOO_MANY_OPTIONS :: jsstring where
  "TOO_MANY_OPTIONS = js ''Poll cannot have more than 12 options''"

definition ensureInitialized :: "whatsAppBot \<Rightarrow> error + unit" where
  "ensureInitialized b = (if \<not> isInitialized b then Inl (Error NOT_INITIALIZED) else Inr ())"

definition isReady :: "whatsAppBot \<Rightarrow> bool" where
  "isReady b = isInitialized b"

definition isDigit :: "16 word \<Rightarrow> bool" where
  "isDigit c = (0x30 \<le> c \<and> c \<le> 0x39)"

text \<open>
  \<open>parseMentions\<close>: every match of \<open>/@(\d+)/g\<close>, left to right, gives the digits followed
  by \<open>@c.us\<close>; the search resumes after the digits.
\<close>

function parseMentions :: "jsstring \<Rightarrow> jsstring list" where
  "parseMentions [] = []"
| "parseMentions (c # cs) =
     (if c = 0x40 \<and> takeWhile isDigit cs \<noteq> []
      then (takeWhile isDigit cs @ js ''@c.us'') # parseMentions (dropWhile isDigit cs)
      else parseMentions cs)"
  by pat_completeness auto
termination
  by (relation "measure length") (auto simp: length_dropWhile_le less_Suc_eq_le)

text \<open>
  The \<open>catch\<close> of both send methods: the result of the method once the transport call has
  settled, with the method's prefix put before the message of a failure.
\<close>

definition settle :: "jsstring \<Rightarrow> outcome \<Rightarrow> error + nat" where
  "settle prefix out =
     (case out of
        Fulfilled m \<Rightarrow> Inr m
      | RejectedError msg \<Rightarrow> Inl (Error (prefix @ msg))
      | RejectedOther \<Rightarrow> Inl (Error (prefix @ js ''Unknown error'')))"

text \<open>
  \<open>sendMessage\<close> up to and including the call of the transport: either it throws before
  the call, or the call is made and the method waits for it to settle.
\<close>

definition sendMessage_call :: "whatsAppBot \<Rightarrow> sendMessageOptions \<Rightarrow> error + whatsAppBot" where
  "sendMessage_call b opts =
     (case ensureInitialized b of
        Inl e \<Rightarrow> Inl e
      | Inr _ \<Rightarrow>
          Inr (b\<lparr>client_calls := client_calls b @
                 [SendText (chatId opts) (content opts)
                    \<lparr>mentions = (if parseMentionsOpt opts = Some True
                                  then Some (parseMentions (content opts)) else None),
                     quoted = (if truthy (quotedMessageId opts)
                                then quotedMessageId opts else None)\<rparr>]\<rparr>))"

definition sendMessage ::
  "outcome \<Rightarrow> whatsAppBot \<Rightarrow> sendMessageOptions \<Rightarrow> (error + nat) \<times> whatsAppBot" where
  "sendMessage out b opts =
     (case sendMessage_call b opts of
        Inl e \<Rightarrow> (Inl e, b)
      | Inr b' \<Rightarrow> (settle (js ''Failed to send message: '') out, b'))"

text \<open>\<open>sendPoll\<close>, split in the same way; \<open>allowMultipleAnswers\<close> defaults to \<open>false\<close>.\<close>

definition sendPoll_call :: "whatsAppBot \<Rightarrow> sendPollOptions \<Rightarrow> error + whatsAppBot" where
  "sendPoll_call b opts =
     (case ensureInitialized b of
        Inl e \<Rightarrow> Inl e
      | Inr _ \<Rightarrow>
          if length (options opts) < 2 then Inl (Error TOO_FEW_OPTIONS)
          else if length (options opts) > 12 then Inl (Error TOO_MANY_OPTIONS)
          else Inr (b\<lparr>client_calls := client_calls b @
                      [SendPoll (pollChatId opts)
                         \<lparr>pollName = question opts,
                          pollOptions = options opts,
                          allowMultiple = (case allowMultipleAnswers opts of
                                             None \<Rightarrow> False | Some a \<Rightarrow> a)\<rparr>]\<rparr>))"

definition sendPoll ::
  "outcome \<Rightarrow> whatsAppBot \<Rightarrow> sendPollOptions \<Rightarrow> (error + nat) \<times> whatsAppBot" where
  "sendPoll out b opts =
     (case sendPoll_call b opts of
        Inl e \<Rightarrow> (Inl e, b)
      | Inr b' \<Rightarrow> (settle (js ''Failed to send poll: '') out, b'))"

text \<open>\<open>destroy\<close>: after the client is destroyed the flag is cleared.\<close>

definition destroy :: "whatsAppBot \<Rightarrow> whatsAppBot" where
  "destroy b = b\<lparr>isInitialized := False\<rparr>"

section \<open>What the application takes from its surroundings\<close>

text \<open>
  The built-in \<open>String.prototype.toLowerCase\<close>, the option list imported from
  \<open>poll-options.json\<close>, the environment variables, the day and month of the current date
  and the verdict of the cron library on a pattern and a timezone are supplied from outside
  the two source files; the handlers take them as a parameter. \<open>cron_rejects pattern tz\<close>
  is the message of the error \<open>cron.schedule\<close> throws for them, or \<open>None\<close> when it
  accepts them.
\<close>

record runtime =
  toLowerCase :: "jsstring \<Rightarrow> jsstring"
  POLL_OPTIONS :: "jsstring list"
  process_env :: "jsstring \<rightharpoonup> jsstring"
  getDate :: nat
  getMonth :: nat
  cron_rejects :: "jsstring \<Rightarrow> jsstring \<Rightarrow> jsstring option"

text \<open>
  The built-in lower-casing on strings of Basic Latin letters and caseless characters: the
  capitals \<open>A\<close> to \<open>Z\<close> move to \<open>a\<close> to \<open>z\<close>. It is used where a concrete run
  needs a value for \<open>toLowerCase\<close>.
\<close>

definition lowerUnit :: "16 word \<Rightarrow> 16 word" where
  "lowerUnit c = (if 0x41 \<le> c \<and> c \<le> 0x5A then c + 0x20 else c)"

definition basicLatinLower :: "jsstring \<Rightarrow> jsstring" where
  "basicLatinLower s = map lowerUnit s"

section \<open>PrayerReminderBot\<close>

text \<open>Literals of the application.\<close>

definition CMD_PRAYER :: jsstring where
  "CMD_PRAYER = js ''!prayer''"

definition CMD_SALAH :: jsstring where
  "CMD_SALAH = [0x21, 0x635, 0x644, 0x627, 0x629]"

definition CMD_HELP :: jsstring where
  "CMD_HELP = js ''!help''"

definition CMD_MUSAADA :: jsstring where
  "CMD_MUSAADA = [0x21, 0x645, 0x633, 0x627, 0x639, 0x62f, 0x629]"

definition ACK_TEXT :: jsstring where
  "ACK_TEXT = [0x2705, 0x20, 0x62a, 0x645, 0x20, 0x625, 0x631, 0x633, 0x627, 0x644, 0x20,
     0x627, 0x633, 0x62a, 0x637, 0x644, 0x627, 0x639, 0x20, 0x627, 0x644, 0x635, 0x644, 0x627,
     0x629, 0x21, 0x20] @ js ''(Prayer poll sent!)''"

definition HELP_TEXT :: jsstring where
  "HELP_TEXT = [0xd83e, 0xdd16] @ js '' *Prayer Reminder Bot Commands*'' @ [0xa, 0xa]
     @ js ''!prayer or '' @ CMD_SALAH @ js '' - Send prayer poll immediately'' @ [0xa]
     @ js ''!help or '' @ CMD_MUSAADA @ js '' - Show this help message'' @ [0xa, 0xa]
     @ js ''The bot automatically sends prayer polls every day at 9:00 AM '' @ [0xd83d, 0xdd58]"

definition arabicMonths :: "jsstring list" where
  "arabicMonths =
    [[0x64a, 0x646, 0x627, 0x64a, 0x631],
     [0x641, 0x628, 0x631, 0x627, 0x64a, 0x631],
     [0x645, 0x627, 0x631, 0x633],
     [0x623, 0x628, 0x631, 0x64a, 0x644],
     [0x645, 0x627, 0x64a, 0x648],
     [0x64a, 0x648, 0x646, 0x64a, 0x648],
     [0x64a, 0x648, 0x644, 0x64a, 0x648],
     [0x623, 0x63a, 0x633, 0x637, 0x633],
     [0x633, 0x628, 0x62a, 0x645, 0x628, 0x631],
     [0x623, 0x643, 0x62a, 0x648, 0x628, 0x631],
     [0x646, 0x648, 0x641, 0x645, 0x628, 0x631],
     [0x62f, 0x64a, 0x633, 0x645, 0x628, 0x631]]"

text \<open>Reading the array out of range gives \<open>undefined\<close>.\<close>

definition getArabicMonth :: "nat \<Rightarrow> jsstring option" where
  "getArabicMonth monthIndex =
     (if monthIndex < length arabicMonths then Some (arabicMonths ! monthIndex) else None)"

text \<open>A value inside a template literal.\<close>

definition interpolate :: "jsstring option \<Rightarrow> jsstring" where
  "interpolate v = (case v of None \<Rightarrow> js ''undefined'' | Some s \<Rightarrow> s)"

fun decimal :: "nat \<Rightarrow> jsstring" where
  "decimal n = (if n < 10 then [0x30 + of_nat n]
                else decimal (n div 10) @ [0x30 + of_nat (n mod 10)])"

definition pollQuestion :: "runtime \<Rightarrow> jsstring" where
  "pollQuestion rt =
     [0x2764, 0xfe0f, 0x20] @ decimal (getDate rt) @ [0x20]
       @ interpolate (getArabicMonth (getMonth rt))"

text \<open>
  A task created by \<open>cron.schedule\<close>. The library keeps every task it created; a task fires
  its callback only while it runs, and \<open>stop()\<close> on it ends that.
\<close>

record cronTask =
  pattern :: jsstring
  timezone :: jsstring
  running :: bool

text \<open>
  What the caller of \<open>sendDailyPrayerPoll\<close> does once the dispatch has finished: the timer
  callback and the ready handler do nothing more, the command handler replies to the message.
\<close>

datatype continuation = Finished | ThenReply message

text \<open>
  The application object. \<open>scheduledTask\<close> is the field of the class (an index into the
  tasks of the cron library, or \<open>null\<close>); \<open>awaiting\<close> holds the dispatches whose transport
  call has been made and has not settled yet, each with what its caller does afterwards.
\<close>

record prayerReminderBot =
  bot_obj :: whatsAppBot
  targetChatId :: jsstring
  scheduledTask :: "nat option"
  cron_tasks :: "cronTask list"
  awaiting :: "continuation list"

definition newPrayerReminderBot :: "jsstring \<Rightarrow> prayerReminderBot" where
  "newPrayerReminderBot target =
     \<lparr>bot_obj = newWhatsAppBot, targetChatId = target, scheduledTask = None,
      cron_tasks = [], awaiting = []\<rparr>"

text \<open>\<open>message.reply(text)\<close>: a call on the transport, made by the message object itself.\<close>

definition reply :: "message \<Rightarrow> jsstring \<Rightarrow> prayerReminderBot \<Rightarrow> prayerReminderBot" where
  "reply m txt st =
     st\<lparr>bot_obj := (bot_obj st)\<lparr>client_calls := client_calls (bot_obj st) @ [Reply m txt]\<rparr>\<rparr>"

definition resume :: "continuation \<Rightarrow> prayerReminderBot \<Rightarrow> prayerReminderBot" where
  "resume k st = (case k of Finished \<Rightarrow> st | ThenReply m \<Rightarrow> reply m ACK_TEXT st)"

text \<open>
  \<open>sendDailyPrayerPoll\<close>, called by a caller that continues with \<open>k\<close>. An error thrown by
  \<open>sendPoll\<close> before the transport call is caught (and only logged), so the caller continues
  at once; otherwise the dispatch waits for the transport, and the caller with it.
\<close>

definition sendDailyPrayerPoll ::
  "runtime \<Rightarrow> continuation \<Rightarrow> prayerReminderBot \<Rightarrow> prayerReminderBot" where
  "sendDailyPrayerPoll rt k st =
     (case sendPoll_call (bot_obj st)
             \<lparr>pollChatId = targetChatId st, question = pollQuestion rt,
              options = POLL_OPTIONS rt, allowMultipleAnswers = Some True\<rparr> of
        Inl e \<Rightarrow> resume k st
      | Inr b' \<Rightarrow> st\<lparr>bot_obj := b', awaiting := awaiting st @ [k]\<rparr>)"

text \<open>
  The transport call of the dispatch at position \<open>i\<close> settles: whatever the outcome
  (\<open>sendPoll\<close> returns or throws \<open>settle (js ''Failed to send poll: '') out\<close>, which
  \<open>sendDailyPrayerPoll\<close> logs), the dispatch is over and its caller continues.
\<close>

definition sendSettled :: "nat \<Rightarrow> outcome \<Rightarrow> prayerReminderBot \<Rightarrow> prayerReminderBot" where
  "sendSettled i out st =
     (if i < length (awaiting st)
      then resume (awaiting st ! i)
             (st\<lparr>awaiting := take i (awaiting st) @ drop (Suc i) (awaiting st)\<rparr>)
      else st)"

text \<open>The pattern and the timezone \<open>scheduleDailyPoll\<close> passes to \<open>cron.schedule\<close>.\<close>

definition cronPattern :: "runtime \<Rightarrow> jsstring" where
  "cronPattern rt = orDefault (process_env rt (js ''CRON_PATTERN'')) (js ''0 9 * * *'')"

definition cronTimezone :: "runtime \<Rightarrow> jsstring" where
  "cronTimezone rt = orDefault (process_env rt (js ''TIMEZONE'')) (js ''Africa/Cairo'')"

text \<open>
  \<open>scheduleDailyPoll\<close>: the pattern and the timezone go to \<open>cron.schedule\<close> as they are.
  When the library rejects them its error passes through (nothing catches it), no task is
  created and the field keeps its value; otherwise the library creates a task that runs at
  once (\<open>scheduled: true\<close>) and the field is set to it.
\<close>

definition scheduleDailyPoll :: "runtime \<Rightarrow> prayerReminderBot \<Rightarrow> error + prayerReminderBot" where
  "scheduleDailyPoll rt st =
     (case cron_rejects rt (cronPattern rt) (cronTimezone rt) of
        Some msg \<Rightarrow> Inl (Error msg)
      | None \<Rightarrow>
          Inr (st\<lparr>cron_tasks := cron_tasks st @
                     [\<lparr>pattern = cronPattern rt, timezone = cronTimezone rt, running = True\<rparr>],
                  scheduledTask := Some (length (cron_tasks st))\<rparr>))"

text \<open>
  The guarded \<open>this.scheduledTask.stop()\<close> of the disconnection handler and of \<open>stop\<close>:
  nothing when the field is \<open>null\<close>, otherwise the task it refers to stops running.
\<close>

definition stopScheduledTask :: "prayerReminderBot \<Rightarrow> prayerReminderBot" where
  "stopScheduledTask st =
     (case scheduledTask st of
        None \<Rightarrow> st
      | Some i \<Rightarrow>
          if i < length (cron_tasks st)
          then st\<lparr>cron_tasks := (cron_tasks st)[i := (cron_tasks st ! i)\<lparr>running := False\<rparr>]\<rparr>
          else st)"

text \<open>
  The handlers registered in \<open>setupBotEventHandlers\<close>. The handlers of the QR code, of the
  authentication and of its failure only write to the console. The ready handler calls
  \<open>scheduleDailyPoll\<close> outside any \<open>try\<close>: an error of the cron library ends the handler
  there, and its promise rejects with that error.
\<close>

definition onReady :: "runtime \<Rightarrow> prayerReminderBot \<Rightarrow> error + prayerReminderBot" where
  "onReady rt st =
     (case scheduleDailyPoll rt st of
        Inl e \<Rightarrow> Inl e
      | Inr st' \<Rightarrow>
          Inr (if process_env rt (js ''TEST_MODE'') = Some (js ''true'')
               then sendDailyPrayerPoll rt Finished st' else st'))"

definition onMessage :: "runtime \<Rightarrow> message \<Rightarrow> prayerReminderBot \<Rightarrow> prayerReminderBot" where
  "onMessage rt m st =
     (if msg_from m = js ''status@broadcast'' \<or> endsWith (msg_from m) (js ''@newsletter'')
      then st
      else if toLowerCase rt (msg_body m) = CMD_PRAYER \<or> toLowerCase rt (msg_body m) = CMD_SALAH
      then sendDailyPrayerPoll rt (ThenReply m) st
      else if toLowerCase rt (msg_body m) = CMD_HELP \<or> toLowerCase rt (msg_body m) = CMD_MUSAADA
      then reply m HELP_TEXT st
      else st)"

definition onDisconnected :: "jsstring \<Rightarrow> prayerReminderBot \<Rightarrow> prayerReminderBot" where
  "onDisconnected reason st = stopScheduledTask st"

text \<open>\<open>stop\<close>: the scheduled task is stopped, then the bot is destroyed.\<close>

definition stop :: "prayerReminderBot \<Rightarrow> prayerReminderBot" where
  "stop st = (let st' = stopScheduledTask st in st'\<lparr>bot_obj := destroy (bot_obj st')\<rparr>)"

section \<open>Events\<close>

text \<open>
  The handlers run on one thread; between two suspension points a handler runs without
  interruption. An event is a transport event of the client, the firing of a cron task, or
  the settling of a transport call a dispatch waits for. The listeners of \<open>WhatsAppBot\<close>
  update \<open>isInitialized\<close> and then call the handler the application registered. The
  settling of a reply is not among the events.

  \<open>step\<close> gives the state the listener and the handler leave behind. The listeners do not
  wait for the promise of a handler: when the ready handler rejects, the state is the one the
  listener had set up (the flag set, no task created), and \<open>unhandled\<close> gives the error nobody
  catches.
\<close>

datatype event =
    QR jsstring
  | Authenticated
  | AuthFailure jsstring
  | Ready
  | Incoming message
  | Disconnected jsstring
  | CronFire nat
  | SendSettled nat outcome

definition step :: "runtime \<Rightarrow> event \<Rightarrow> prayerReminderBot \<Rightarrow> prayerReminderBot" where
  "step rt ev st =
     (case ev of
        QR q \<Rightarrow> st
      | Authenticated \<Rightarrow> st
      | AuthFailure e \<Rightarrow> st
      | Ready \<Rightarrow>
          (case onReady rt (st\<lparr>bot_obj := (bot_obj st)\<lparr>isInitialized := True\<rparr>\<rparr>) of
             Inl e \<Rightarrow> st\<lparr>bot_obj := (bot_obj st)\<lparr>isInitialized := True\<rparr>\<rparr>
           | Inr st' \<Rightarrow> st')
      | Incoming m \<Rightarrow> onMessage rt m st
      | Disconnected reason \<Rightarrow>
          onDisconnected reason (st\<lparr>bot_obj := (bot_obj st)\<lparr>isInitialized := False\<rparr>\<rparr>)
      | CronFire i \<Rightarrow>
          if i < length (cron_tasks st) \<and> running (cron_tasks st ! i)
          then sendDailyPrayerPoll rt Finished st else st
      | SendSettled i out \<Rightarrow> sendSettled i out st)"

definition unhandled :: "runtime \<Rightarrow> event \<Rightarrow> prayerReminderBot \<Rightarrow> error option" where
  "unhandled rt ev st =
     (case ev of
        Ready \<Rightarrow>
          (case onReady rt (st\<lparr>bot_obj := (bot_obj st)\<lparr>isInitialized := True\<rparr>\<rparr>) of
             Inl e \<Rightarrow> Some e
           | Inr st' \<Rightarrow> None)
      | _ \<Rightarrow> None)"

text \<open>
  The states the handlers leave over a sequence of events; whether the process lives on
  after an event is what \<open>deliver\<close> says.
\<close>

fun run :: "runtime \<Rightarrow> event list \<Rightarrow> prayerReminderBot \<Rightarrow> prayerReminderBot" where
  "run rt [] st = st"
| "run rt (ev # evs) st = run rt evs (step rt ev st)"

section \<open>The process\<close>




text \<open>
  The running process: an event reaches the handlers while the process lives; a rejection
  of a handler's promise that nobody catches ends the process with code 1 (the default of
  the Node.js versions the README asks for, and the application installs no handler for
  it); a termination signal runs \<open>stop\<close> and exits with code 0.
\<close>

datatype process = Running prayerReminderBot | Exited nat

datatype input = Event event | Signal

definition deliver :: "runtime \<Rightarrow> input \<Rightarrow> process \<Rightarrow> process" where
  "deliver rt i p =
     (case p of
        Exited c \<Rightarrow> Exited c
      | Running st \<Rightarrow>
          (case i of
             Event ev \<Rightarrow>
               (case unhandled rt ev st of
                  Some e \<Rightarrow> Exited 1
                | None \<Rightarrow> Running (step rt ev st))
           | Signal \<Rightarrow> Exited 0))"

section \<open>The command table as the specification words it\<close>

text \<open>
  The specification's classification of an inbound message, written from its words: messages
  of the pseudo-senders are ignored before the table is consulted; otherwise the lower-cased
  body is compared with the aliases of the two commands.
\<close>

datatype command = TriggerPoll | Help | Ignore

definition classify_spec :: "runtime \<Rightarrow> message \<Rightarrow> command" where
  "classify_spec rt m =
     (if msg_from m = js ''status@broadcast'' \<or> endsWith (msg_from m) (js ''@newsletter'')
      then Ignore
      else if toLowerCase rt (msg_body m) \<in> {CMD_PRAYER, CMD_SALAH} then TriggerPoll
      else if toLowerCase rt (msg_body m) \<in> {CMD_HELP, CMD_MUSAADA} then Help
      else Ignore)"

text \<open>The transport call a dispatch makes: the poll of the day, sent to the target.\<close>

definition dailyPoll :: "runtime \<Rightarrow> prayerReminderBot \<Rightarrow> call" where
  "dailyPoll rt st =
     SendPoll (targetChatId st)
       \<lparr>pollName = pollQuestion rt, pollOptions = POLL_OPTIONS rt, allowMultiple = True\<rparr>"

section \<open>Concrete inputs\<close>

definition demo_target :: jsstring where
  "demo_target = js ''201234567890@c.us''"

text \<open>
  A stand-in for the check of the cron library in the runs below: a pattern of five or six
  fields separated by single spaces is accepted, any other is rejected.
\<close>

definition demo_cron_rejects :: "jsstring \<Rightarrow> jsstring \<Rightarrow> jsstring option" where
  "demo_cron_rejects p tz =
     (if length (filter (\<lambda>c. c = 0x20) p) \<in> {4, 5} then None
      else Some (p @ js '' is a invalid expression''))"

text \<open>A concrete runtime for the runs below: two options, the target set, no overrides.\<close>

definition demo_runtime :: runtime where
  "demo_runtime =
     \<lparr>toLowerCase = basicLatinLower,
      POLL_OPTIONS = [js ''Fajr'', js ''Dhuhr''],
      process_env = [js ''TARGET_CHAT_ID'' \<mapsto> demo_target],
      getDate = 2, getMonth = 10,
      cron_rejects = demo_cron_rejects\<rparr>"


definition demo_message :: "string \<Rightarrow> message" where
  "demo_message body = \<lparr>msg_from = demo_target, msg_body = js body\<rparr>"

definition demo_pollOptions :: "jsstring list \<Rightarrow> sendPollOptions" where
  "demo_pollOptions os =
     \<lparr>pollChatId = demo_target, question = js ''q'', options = os,
      allowMultipleAnswers = None\<rparr>"

definition demo_ready :: prayerReminderBot where
  "demo_ready = run demo_runtime [Ready] (newPrayerReminderBot demo_target)"

section \<open>Auxiliary facts\<close>

lemma sendDailyPrayerPoll_ready:
  "isInitialized (bot_obj st) \<Longrightarrow> 2 \<le> length (POLL_OPTIONS rt) \<Longrightarrow>
   length (POLL_OPTIONS rt) \<le> 12 \<Longrightarrow>
   sendDailyPrayerPoll rt k st =
     st\<lparr>bot_obj := (bot_obj st)\<lparr>client_calls := client_calls (bot_obj st) @ [dailyPoll rt st]\<rparr>,
        awaiting := awaiting st @ [k]\<rparr>"
  by (simp add: sendDailyPrayerPoll_def sendPoll_call_def ensureInitialized_def dailyPoll_def)

lemma sendDailyPrayerPoll_refused:
  "\<not> isInitialized (bot_obj st) \<or> length (POLL_OPTIONS rt) < 2
     \<or> 12 < length (POLL_OPTIONS rt) \<Longrightarrow>
   sendDailyPrayerPoll rt k st = resume k st"
  by (auto simp: sendDailyPrayerPoll_def sendPoll_call_def ensureInitialized_def)

lemma demo_env:
  "process_env demo_runtime (js ''TEST_MODE'') = None"
  "process_env demo_runtime (js ''CRON_PATTERN'') = None"
  "process_env demo_runtime (js ''TIMEZONE'') = None"
  "process_env demo_runtime (js ''TARGET_CHAT_ID'') = Some demo_target"
  by (simp_all add: demo_runtime_def demo_target_def js_def)

lemma demo_cron:
  "cronPattern demo_runtime = js ''0 9 * * *''"
  "cronTimezone demo_runtime = js ''Africa/Cairo''"
  "cron_rejects demo_runtime (js ''0 9 * * *'') (js ''Africa/Cairo'') = None"
  by (simp_all add: cronPattern_def cronTimezone_def demo_env orDefault_def)
     (simp add: demo_runtime_def demo_cron_rejects_def js_def)




lemma demo_ready_eq:
  "demo_ready =
     \<lparr>bot_obj = \<lparr>isInitialized = True, client_calls = []\<rparr>, targetChatId = demo_target,
      scheduledTask = Some 0,
      cron_tasks = [\<lparr>pattern = js ''0 9 * * *'', timezone = js ''Africa/Cairo'',
                     running = True\<rparr>],
      awaiting = []\<rparr>"
  by (simp add: demo_ready_def step_def onReady_def scheduleDailyPoll_def demo_cron demo_env
      newPrayerReminderBot_def newWhatsAppBot_def)


lemma uninitialized_preserved:
  "\<not> isInitialized (bot_obj st) \<Longrightarrow> ev \<noteq> Ready \<Longrightarrow> \<not> isInitialized (bot_obj (step rt ev st))"
  by (cases ev)
     (auto simp: step_def onMessage_def onDisconnected_def stopScheduledTask_def sendSettled_def
        sendDailyPrayerPoll_refused resume_def reply_def
        split: option.splits continuation.splits)

lemma uninitialized_run:
  "\<not> isInitialized (bot_obj st) \<Longrightarrow> Ready \<notin> set evs \<Longrightarrow>
   \<not> isInitialized (bot_obj (run rt evs st))"
proof (induction evs arbitrary: st)
  case Nil
  then show ?case by simp
next
  case (Cons ev evs)
  from Cons.prems have "\<not> isInitialized (bot_obj (step rt ev st))"
    by (intro uninitialized_preserved) auto
  with Cons show ?case by simp
qed

lemma trigger_starts_dispatch:
  "classify_spec rt m = TriggerPoll \<Longrightarrow>
   step rt (Incoming m) st = sendDailyPrayerPoll rt (ThenReply m) st"
  by (auto simp: classify_spec_def step_def onMessage_def split: if_splits)

lemma demo_options:
  "2 \<le> length (POLL_OPTIONS demo_runtime)" "length (POLL_OPTIONS demo_runtime) \<le> 12"
  by (simp_all add: demo_runtime_def)

lemma demo_ready_fields:
  "isInitialized (bot_obj demo_ready)"
  "client_calls (bot_obj demo_ready) = []"
  "awaiting demo_ready = []"
  "scheduledTask demo_ready = Some 0"
  "cron_tasks demo_ready \<noteq> []"
  "running (cron_tasks demo_ready ! 0)"
  by (simp_all add: demo_ready_eq)

lemma demo_classify:
  "classify_spec demo_runtime (demo_message ''!prayer'') = TriggerPoll"
  "classify_spec demo_runtime (demo_message ''!PrAyEr'') = TriggerPoll"
  "classify_spec demo_runtime (demo_message ''!Help'') = Help"
  "classify_spec demo_runtime (demo_message ''!unknown'') = Ignore"
  "classify_spec demo_runtime \<lparr>msg_from = js ''status@broadcast'', msg_body = js ''!prayer''\<rparr> = Ignore"
  "classify_spec demo_runtime \<lparr>msg_from = js ''120363@newsletter'', msg_body = js ''!help''\<rparr> = Ignore"
  by (simp_all add: classify_spec_def demo_runtime_def demo_message_def demo_target_def
      basicLatinLower_def lowerUnit_def js_def endsWith_def
      CMD_PRAYER_def CMD_SALAH_def CMD_HELP_def CMD_MUSAADA_def)

section \<open>Dispatches from the timer and from the command\<close>

text \<open>
  Claim C1, as stated, fails. From the state after the ready event, the cron task fires and,
  before the transport call of that dispatch has settled, the command \<open>!prayer\<close> arrives:
  the second dispatch is not skipped, both are waiting for the transport at the same time, and
  the client has been called twice with the poll.
\<close>

theorem dispatch_overlap_counterexample:
  "awaiting (run demo_runtime [CronFire 0, Incoming (demo_message ''!prayer'')] demo_ready)
     = [Finished, ThenReply (demo_message ''!prayer'')]
   \<and> client_calls (bot_obj (run demo_runtime
                               [CronFire 0, Incoming (demo_message ''!prayer'')] demo_ready))
     = [dailyPoll demo_runtime demo_ready, dailyPoll demo_runtime demo_ready]"
proof -
  define m where "m = demo_message ''!prayer''"
  define s1 where "s1 = step demo_runtime (CronFire 0) demo_ready"
  define s2 where "s2 = step demo_runtime (Incoming m) s1"
  have "s1 = sendDailyPrayerPoll demo_runtime Finished demo_ready"
    using demo_ready_fields by (simp add: s1_def step_def)
  then have s1: "s1 = demo_ready
        \<lparr>bot_obj := (bot_obj demo_ready)\<lparr>client_calls := [dailyPoll demo_runtime demo_ready]\<rparr>,
         awaiting := [Finished]\<rparr>"
    by (simp add: sendDailyPrayerPoll_ready [OF demo_ready_fields(1) demo_options]
        demo_ready_fields)
  have init1: "isInitialized (bot_obj s1)"
    by (simp add: s1 demo_ready_fields)
  have same: "dailyPoll demo_runtime s1 = dailyPoll demo_runtime demo_ready"
    by (simp add: s1 dailyPoll_def)
  have "s2 = sendDailyPrayerPoll demo_runtime (ThenReply m) s1"
    unfolding s2_def m_def by (rule trigger_starts_dispatch) (rule demo_classify)
  then have s2: "s2 = s1
        \<lparr>bot_obj := (bot_obj s1)\<lparr>client_calls :=
            client_calls (bot_obj s1) @ [dailyPoll demo_runtime demo_ready]\<rparr>,
         awaiting := awaiting s1 @ [ThenReply m]\<rparr>"
    by (simp add: sendDailyPrayerPoll_ready [OF init1 demo_options] same)
  have "run demo_runtime [CronFire 0, Incoming m] demo_ready = s2"
    by (simp add: s2_def s1_def)
  then show ?thesis
    unfolding m_def [symmetric] by (simp add: s2 s1)
qed

text \<open>
  Claim C1, amended. There is no lock. With the bot initialized and between 2 and 12 options,
  every firing of a running cron task and every trigger command starts a dispatch of its own,
  whatever dispatches are still waiting: one more call of the client with the poll, one more
  entry among the waiting dispatches. Nothing is skipped. A dispatch leaves the waiting ones
  when its transport call settles, whatever the outcome.
\<close>

theorem dispatch_never_skipped:
  assumes "isInitialized (bot_obj st)"
    and "2 \<le> length (POLL_OPTIONS rt)" and "length (POLL_OPTIONS rt) \<le> 12"
  shows "(i < length (cron_tasks st) \<and> running (cron_tasks st ! i) \<longrightarrow>
            awaiting (step rt (CronFire i) st) = awaiting st @ [Finished]
          \<and> client_calls (bot_obj (step rt (CronFire i) st))
              = client_calls (bot_obj st) @ [dailyPoll rt st])
       \<and> (classify_spec rt m = TriggerPoll \<longrightarrow>
            awaiting (step rt (Incoming m) st) = awaiting st @ [ThenReply m]
          \<and> client_calls (bot_obj (step rt (Incoming m) st))
              = client_calls (bot_obj st) @ [dailyPoll rt st])
       \<and> (j < length (awaiting st) \<longrightarrow>
            awaiting (step rt (SendSettled j out) st)
              = take j (awaiting st) @ drop (Suc j) (awaiting st))"
proof -
  have fire: "i < length (cron_tasks st) \<and> running (cron_tasks st ! i) \<longrightarrow>
      step rt (CronFire i) st = sendDailyPrayerPoll rt Finished st"
    by (simp add: step_def)
  have settled: "j < length (awaiting st) \<longrightarrow>
      awaiting (step rt (SendSettled j out) st)
        = take j (awaiting st) @ drop (Suc j) (awaiting st)"
    by (simp add: step_def sendSettled_def resume_def reply_def split: continuation.splits)
  show ?thesis
    using fire settled
    by (auto simp: trigger_starts_dispatch sendDailyPrayerPoll_ready [OF assms])
qed

theorem dispatch_never_skipped_witness:
  "isInitialized (bot_obj demo_ready)
   \<and> 2 \<le> length (POLL_OPTIONS demo_runtime) \<and> length (POLL_OPTIONS demo_runtime) \<le> 12
   \<and> running (cron_tasks demo_ready ! 0)
   \<and> classify_spec demo_runtime (demo_message ''!PrAyEr'') = TriggerPoll
   \<and> awaiting (step demo_runtime (CronFire 0) demo_ready) = [Finished]
   \<and> awaiting (step demo_runtime (Incoming (demo_message ''!PrAyEr'')) demo_ready)
       = [ThenReply (demo_message ''!PrAyEr'')]
   \<and> client_calls (bot_obj (step demo_runtime (Incoming (demo_message ''!PrAyEr'')) demo_ready))
       = [dailyPoll demo_runtime demo_ready]"
  using dispatch_never_skipped [OF demo_ready_fields(1) demo_options,
          of 0 "demo_message ''!PrAyEr''" 0 "Fulfilled 0"]
  by (simp add: demo_ready_fields demo_options demo_classify)

section \<open>Order of the checks of sendPoll\<close>

text \<open>
  Claim C2, as stated, fails. On a bot that is not initialized, a poll with no options is
  rejected with the not-initialized error, which is neither of the two option-count errors;
  and on an initialized bot a poll with an empty target and two options is handed to the
  transport and succeeds.
\<close>

theorem sendPoll_order_counterexample:
  "sendPoll (Fulfilled 0) newWhatsAppBot (demo_pollOptions [])
     = (Inl (Error NOT_INITIALIZED), newWhatsAppBot)
   \<and> NOT_INITIALIZED \<noteq> TOO_FEW_OPTIONS \<and> NOT_INITIALIZED \<noteq> TOO_MANY_OPTIONS
   \<and> fst (sendPoll (Fulfilled 0) \<lparr>isInitialized = True, client_calls = []\<rparr>
            \<lparr>pollChatId = [], question = js ''q'', options = [js ''a'', js ''b''],
             allowMultipleAnswers = None\<rparr>) = Inr 0"
  by (simp add: sendPoll_def sendPoll_call_def ensureInitialized_def newWhatsAppBot_def
      demo_pollOptions_def NOT_INITIALIZED_def TOO_FEW_OPTIONS_def TOO_MANY_OPTIONS_def
      js_def settle_def)

text \<open>
  Claim C2, amended. \<open>sendPoll\<close> checks first that the bot is initialized (failing with the
  not-initialized error whatever the options are), then that there are at least 2 options,
  then that there are at most 12; the target is not checked: with the bot initialized and the
  count in range the transport is called once, with the target as given, and the result is the
  transport's answer or the send error made from its failure.
\<close>

theorem sendPoll_check_order:
  "(\<not> isInitialized b \<longrightarrow> sendPoll out b opts = (Inl (Error NOT_INITIALIZED), b))
   \<and> (isInitialized b \<and> length (options opts) < 2 \<longrightarrow>
        sendPoll out b opts = (Inl (Error TOO_FEW_OPTIONS), b))
   \<and> (isInitialized b \<and> 12 < length (options opts) \<longrightarrow>
        sendPoll out b opts = (Inl (Error TOO_MANY_OPTIONS), b))
   \<and> (isInitialized b \<and> 2 \<le> length (options opts) \<and> length (options opts) \<le> 12 \<longrightarrow>
        sendPoll out b opts =
          (settle (js ''Failed to send poll: '') out,
           b\<lparr>client_calls := client_calls b @
                [SendPoll (pollChatId opts)
                   \<lparr>pollName = question opts, pollOptions = options opts,
                    allowMultiple = (case allowMultipleAnswers opts of
                                       None \<Rightarrow> False | Some a \<Rightarrow> a)\<rparr>]\<rparr>))"
  by (auto simp: sendPoll_def sendPoll_call_def ensureInitialized_def)

theorem sendPoll_check_order_witness:
  "sendPoll (RejectedError (js ''timeout'')) newWhatsAppBot (demo_pollOptions [js ''a''])
     = (Inl (Error NOT_INITIALIZED), newWhatsAppBot)
   \<and> sendPoll (Fulfilled 0) (newWhatsAppBot\<lparr>isInitialized := True\<rparr>) (demo_pollOptions [js ''a''])
     = (Inl (Error TOO_FEW_OPTIONS), newWhatsAppBot\<lparr>isInitialized := True\<rparr>)
   \<and> sendPoll (Fulfilled 0) (newWhatsAppBot\<lparr>isInitialized := True\<rparr>)
        (demo_pollOptions (replicate 13 (js ''a'')))
     = (Inl (Error TOO_MANY_OPTIONS), newWhatsAppBot\<lparr>isInitialized := True\<rparr>)
   \<and> fst (sendPoll (RejectedError (js ''timeout'')) (newWhatsAppBot\<lparr>isInitialized := True\<rparr>)
        (demo_pollOptions [js ''a'', js ''b'']))
     = Inl (Error (js ''Failed to send poll: timeout''))"
  using sendPoll_check_order
          [of newWhatsAppBot "RejectedError (js ''timeout'')" "demo_pollOptions [js ''a'']"]
        sendPoll_check_order
          [of "newWhatsAppBot\<lparr>isInitialized := True\<rparr>" "Fulfilled 0" "demo_pollOptions [js ''a'']"]
        sendPoll_check_order
          [of "newWhatsAppBot\<lparr>isInitialized := True\<rparr>" "Fulfilled 0"
              "demo_pollOptions (replicate 13 (js ''a''))"]
        sendPoll_check_order
          [of "newWhatsAppBot\<lparr>isInitialized := True\<rparr>" "RejectedError (js ''timeout'')"
              "demo_pollOptions [js ''a'', js ''b'']"]
  by (simp add: newWhatsAppBot_def demo_pollOptions_def settle_def js_def)

section \<open>Sends need an initialized bot\<close>

text \<open>
  Claim C3. The bot keeps one flag for the session: it is set by the ready event and cleared
  by the disconnected event, so every session state other than Ready is the flag being clear.
  With the flag clear, \<open>sendMessage\<close> and \<open>sendPoll\<close> fail with the not-initialized error
  and leave the bot as it was (nothing is handed to the transport, nothing is kept for later),
  and a dispatch of the application leaves no waiting entry and no call behind; a send that
  succeeds was made with the flag set. The flag is clear in a new application and after a
  disconnected event, and in both cases it stays clear under every sequence of events
  without a ready event.
\<close>

theorem sends_require_initialized:
  "(\<not> isInitialized b \<longrightarrow>
      sendMessage out b mo = (Inl (Error NOT_INITIALIZED), b)
    \<and> sendPoll out b po = (Inl (Error NOT_INITIALIZED), b))
   \<and> (fst (sendMessage out b mo) = Inr a \<longrightarrow> isInitialized b)
   \<and> (fst (sendPoll out b po) = Inr a \<longrightarrow> isInitialized b)
   \<and> (\<not> isInitialized (bot_obj st) \<longrightarrow>
        awaiting (sendDailyPrayerPoll rt Finished st) = awaiting st
      \<and> client_calls (bot_obj (sendDailyPrayerPoll rt Finished st)) = client_calls (bot_obj st))
   \<and> (Ready \<notin> set evs \<longrightarrow>
        \<not> isInitialized (bot_obj (run rt evs (newPrayerReminderBot target)))
      \<and> \<not> isInitialized (bot_obj (run rt (Disconnected r # evs) st)))"
proof -
  have both: "\<not> isInitialized b \<longrightarrow>
      sendMessage out b mo = (Inl (Error NOT_INITIALIZED), b)
    \<and> sendPoll out b po = (Inl (Error NOT_INITIALIZED), b)"
    by (simp add: sendMessage_def sendMessage_call_def sendPoll_def sendPoll_call_def
        ensureInitialized_def)
  have msg: "fst (sendMessage out b mo) = Inr a \<longrightarrow> isInitialized b"
    by (auto simp: sendMessage_def sendMessage_call_def ensureInitialized_def)
  have pol: "fst (sendPoll out b po) = Inr a \<longrightarrow> isInitialized b"
    by (auto simp: sendPoll_def sendPoll_call_def ensureInitialized_def)
  have app: "\<not> isInitialized (bot_obj st) \<longrightarrow>
        awaiting (sendDailyPrayerPoll rt Finished st) = awaiting st
      \<and> client_calls (bot_obj (sendDailyPrayerPoll rt Finished st)) = client_calls (bot_obj st)"
    by (simp add: sendDailyPrayerPoll_refused resume_def)
  have fresh: "\<not> isInitialized (bot_obj (newPrayerReminderBot target))"
    by (simp add: newPrayerReminderBot_def newWhatsAppBot_def)
  have disc: "\<not> isInitialized (bot_obj (step rt (Disconnected r) st))"
    by (auto simp: step_def onDisconnected_def stopScheduledTask_def split: option.splits)
  have runs: "Ready \<notin> set evs \<longrightarrow>
        \<not> isInitialized (bot_obj (run rt evs (newPrayerReminderBot target)))
      \<and> \<not> isInitialized (bot_obj (run rt (Disconnected r # evs) st))"
    using uninitialized_run [OF fresh] uninitialized_run [OF disc] by simp
  from both msg pol app runs show ?thesis
    by blast
qed

theorem sends_require_initialized_witness:
  "\<not> isInitialized newWhatsAppBot
   \<and> sendMessage (Fulfilled 0) newWhatsAppBot
        \<lparr>chatId = demo_target, content = js ''hello'', parseMentionsOpt = None,
         quotedMessageId = None\<rparr> = (Inl (Error NOT_INITIALIZED), newWhatsAppBot)
   \<and> sendPoll (Fulfilled 0) newWhatsAppBot (demo_pollOptions [js ''a'', js ''b''])
       = (Inl (Error NOT_INITIALIZED), newWhatsAppBot)
   \<and> fst (sendPoll (Fulfilled 0) (bot_obj demo_ready) (demo_pollOptions [js ''a'', js ''b'']))
       = Inr 0
   \<and> isInitialized (bot_obj demo_ready)
   \<and> \<not> isInitialized (bot_obj (run demo_runtime [QR [], Authenticated]
          (newPrayerReminderBot demo_target)))
   \<and> \<not> isInitialized (bot_obj (run demo_runtime
          [Disconnected (js ''LOGOUT''), QR [], Incoming (demo_message ''!prayer'')] demo_ready))"
  using sends_require_initialized
          [of newWhatsAppBot "Fulfilled 0"
              "\<lparr>chatId = demo_target, content = js ''hello'', parseMentionsOpt = None,
                quotedMessageId = None\<rparr>"
              "demo_pollOptions [js ''a'', js ''b'']" 0
              demo_ready demo_runtime "[QR [], Authenticated]" demo_target "js ''LOGOUT''"]
        sends_require_initialized
          [of "bot_obj demo_ready" "Fulfilled 0"
              "\<lparr>chatId = demo_target, content = js ''hello'', parseMentionsOpt = None,
                quotedMessageId = None\<rparr>"
              "demo_pollOptions [js ''a'', js ''b'']" 0
              demo_ready demo_runtime "[QR [], Incoming (demo_message ''!prayer'')]"
              demo_target "js ''LOGOUT''"]
  by (simp add: newWhatsAppBot_def demo_ready_fields demo_pollOptions_def
      sendPoll_def sendPoll_call_def ensureInitialized_def settle_def del: run.simps)

section \<open>Poll validation\<close>

text \<open>
  Claim C6. With the bot initialized, a poll whose option list has fewer than 2 or more than 12
  entries is rejected with the corresponding validation error, however the transport would
  have answered, and the bot (with the list of calls made on the client) is returned unchanged:
  the transport is not invoked.
\<close>

theorem sendPoll_option_count_rejected:
  assumes "isInitialized b"
    and "length (options opts) < 2 \<or> 12 < length (options opts)"
  shows "sendPoll out b opts =
           (Inl (Error (if length (options opts) < 2 then TOO_FEW_OPTIONS else TOO_MANY_OPTIONS)), b)
         \<and> client_calls (snd (sendPoll out b opts)) = client_calls b"
  using assms by (auto simp: sendPoll_def sendPoll_call_def ensureInitialized_def)

theorem sendPoll_option_count_rejected_witness:
  "isInitialized (bot_obj demo_ready)
   \<and> length (options (demo_pollOptions [js ''only''])) < 2
   \<and> 12 < length (options (demo_pollOptions (replicate 13 (js ''x''))))
   \<and> sendPoll (Fulfilled 0) (bot_obj demo_ready) (demo_pollOptions [js ''only''])
       = (Inl (Error TOO_FEW_OPTIONS), bot_obj demo_ready)
   \<and> sendPoll (Fulfilled 0) (bot_obj demo_ready) (demo_pollOptions (replicate 13 (js ''x'')))
       = (Inl (Error TOO_MANY_OPTIONS), bot_obj demo_ready)"
  using sendPoll_option_count_rejected
          [of "bot_obj demo_ready" "demo_pollOptions [js ''only'']" "Fulfilled 0"]
        sendPoll_option_count_rejected
          [of "bot_obj demo_ready" "demo_pollOptions (replicate 13 (js ''x''))" "Fulfilled 0"]
  by (simp add: demo_ready_fields demo_pollOptions_def)

section \<open>The disconnected event\<close>

text \<open>
  Claim C4, as stated, fails. In the state after the ready event the scheduled task runs;
  the disconnected event stops it.
\<close>

theorem disconnect_stops_task_counterexample:
  "scheduledTask demo_ready = Some 0 \<and> running (cron_tasks demo_ready ! 0)
   \<and> \<not> running (cron_tasks (step demo_runtime (Disconnected (js ''NAVIGATION'')) demo_ready) ! 0)"
  by (simp add: demo_ready_eq step_def onDisconnected_def stopScheduledTask_def)

text \<open>
  Claim C4, amended. The disconnected event clears the flag of the bot and stops the task
  the application refers to, if there is one. Everything else stays: the calls made on the
  client, the target, the reference to the task, the waiting dispatches, the pattern and the
  timezone of every task, and whether any other task runs. The process keeps running.
\<close>

theorem disconnect_frame:
  "(let st' = step rt (Disconnected reason) st in
      \<not> isInitialized (bot_obj st')
    \<and> client_calls (bot_obj st') = client_calls (bot_obj st)
    \<and> targetChatId st' = targetChatId st
    \<and> scheduledTask st' = scheduledTask st
    \<and> awaiting st' = awaiting st
    \<and> map pattern (cron_tasks st') = map pattern (cron_tasks st)
    \<and> map timezone (cron_tasks st') = map timezone (cron_tasks st)
    \<and> map running (cron_tasks st') =
        (case scheduledTask st of
           None \<Rightarrow> map running (cron_tasks st)
         | Some i \<Rightarrow> (map running (cron_tasks st))[i := False])
    \<and> deliver rt (Event (Disconnected reason)) (Running st) = Running st')"
  by (auto simp: Let_def step_def onDisconnected_def stopScheduledTask_def deliver_def
      unhandled_def map_update list_update_beyond list_update_same_conv split: option.splits)

theorem disconnect_frame_witness:
  "\<not> isInitialized (bot_obj (step demo_runtime (Disconnected (js ''NAVIGATION'')) demo_ready))
   \<and> scheduledTask (step demo_runtime (Disconnected (js ''NAVIGATION'')) demo_ready) = Some 0
   \<and> map running (cron_tasks (step demo_runtime (Disconnected (js ''NAVIGATION'')) demo_ready))
       = [False]
   \<and> deliver demo_runtime (Event (Disconnected (js ''NAVIGATION''))) (Running demo_ready)
       = Running (step demo_runtime (Disconnected (js ''NAVIGATION'')) demo_ready)"
  using disconnect_frame [of demo_runtime "js ''NAVIGATION''" demo_ready]
  by (simp add: Let_def demo_ready_fields) (simp add: demo_ready_eq)

section \<open>Scheduling the daily poll\<close>




section \<open>Inbound commands\<close>

text \<open>
  Claim C7. The message handler acts as the command table says. A message of a pseudo-sender
  (status broadcast or newsletter), and a message whose lower-cased body is no alias, changes
  nothing: no reply, no send. A help alias gives exactly one reply, the help text, and no
  dispatch. A trigger alias starts exactly one dispatch, followed by exactly one reply with
  the acknowledgment text: when the bot is initialized and the option count is in range the
  poll is handed to the transport once and the reply follows when that call has settled,
  whatever its outcome; otherwise the dispatch fails before the transport is called and the
  reply follows at once.
\<close>

theorem onMessage_follows_command_table:
  "(classify_spec rt m = Ignore \<longrightarrow> step rt (Incoming m) st = st)
   \<and> (classify_spec rt m = Help \<longrightarrow>
        step rt (Incoming m) st =
          st\<lparr>bot_obj := (bot_obj st)\<lparr>client_calls :=
                client_calls (bot_obj st) @ [Reply m HELP_TEXT]\<rparr>\<rparr>)
   \<and> (classify_spec rt m = TriggerPoll \<longrightarrow>
        step rt (Incoming m) st = sendDailyPrayerPoll rt (ThenReply m) st
      \<and> (if isInitialized (bot_obj st)
             \<and> 2 \<le> length (POLL_OPTIONS rt) \<and> length (POLL_OPTIONS rt) \<le> 12
         then step rt (Incoming m) st =
                st\<lparr>bot_obj := (bot_obj st)\<lparr>client_calls :=
                      client_calls (bot_obj st) @ [dailyPoll rt st]\<rparr>,
                   awaiting := awaiting st @ [ThenReply m]\<rparr>
            \<and> step rt (SendSettled (length (awaiting st)) out) (step rt (Incoming m) st) =
                st\<lparr>bot_obj := (bot_obj st)\<lparr>client_calls :=
                      client_calls (bot_obj st) @ [dailyPoll rt st, Reply m ACK_TEXT]\<rparr>\<rparr>
         else step rt (Incoming m) st =
                st\<lparr>bot_obj := (bot_obj st)\<lparr>client_calls :=
                      client_calls (bot_obj st) @ [Reply m ACK_TEXT]\<rparr>\<rparr>))"
proof -
  have ign: "classify_spec rt m = Ignore \<longrightarrow> step rt (Incoming m) st = st"
    by (auto simp: classify_spec_def step_def onMessage_def split: if_splits)
  have hlp: "classify_spec rt m = Help \<longrightarrow>
      step rt (Incoming m) st =
        st\<lparr>bot_obj := (bot_obj st)\<lparr>client_calls :=
              client_calls (bot_obj st) @ [Reply m HELP_TEXT]\<rparr>\<rparr>"
    by (auto simp: classify_spec_def step_def onMessage_def reply_def split: if_splits)
  have later: "step rt (SendSettled (length (awaiting st)) out)
              (st\<lparr>bot_obj := (bot_obj st)\<lparr>client_calls :=
                     client_calls (bot_obj st) @ [dailyPoll rt st]\<rparr>,
                  awaiting := awaiting st @ [ThenReply m]\<rparr>) =
            st\<lparr>bot_obj := (bot_obj st)\<lparr>client_calls :=
                   client_calls (bot_obj st) @ [dailyPoll rt st, Reply m ACK_TEXT]\<rparr>\<rparr>"
    by (simp add: step_def sendSettled_def resume_def reply_def)
  show ?thesis
    using ign hlp later
    by (auto simp: trigger_starts_dispatch sendDailyPrayerPoll_ready
        sendDailyPrayerPoll_refused resume_def reply_def)
qed

theorem onMessage_follows_command_table_witness:
  "classify_spec demo_runtime (demo_message ''!PrAyEr'') = TriggerPoll
   \<and> run demo_runtime [Incoming (demo_message ''!PrAyEr''), SendSettled 0 RejectedOther] demo_ready
       = demo_ready\<lparr>bot_obj := (bot_obj demo_ready)\<lparr>client_calls :=
           [dailyPoll demo_runtime demo_ready, Reply (demo_message ''!PrAyEr'') ACK_TEXT]\<rparr>\<rparr>
   \<and> classify_spec demo_runtime (demo_message ''!Help'') = Help
   \<and> step demo_runtime (Incoming (demo_message ''!Help'')) demo_ready
       = demo_ready\<lparr>bot_obj := (bot_obj demo_ready)\<lparr>client_calls :=
           [Reply (demo_message ''!Help'') HELP_TEXT]\<rparr>\<rparr>
   \<and> classify_spec demo_runtime (demo_message ''!unknown'') = Ignore
   \<and> step demo_runtime (Incoming (demo_message ''!unknown'')) demo_ready = demo_ready
   \<and> step demo_runtime
        (Incoming \<lparr>msg_from = js ''status@broadcast'', msg_body = js ''!prayer''\<rparr>) demo_ready
       = demo_ready"
proof -
  have ready: "isInitialized (bot_obj demo_ready)
      \<and> 2 \<le> length (POLL_OPTIONS demo_runtime) \<and> length (POLL_OPTIONS demo_runtime) \<le> 12"
    by (simp add: demo_ready_fields demo_options)
  have "if isInitialized (bot_obj demo_ready)
           \<and> 2 \<le> length (POLL_OPTIONS demo_runtime) \<and> length (POLL_OPTIONS demo_runtime) \<le> 12
        then step demo_runtime (Incoming (demo_message ''!PrAyEr'')) demo_ready =
               demo_ready\<lparr>bot_obj := (bot_obj demo_ready)\<lparr>client_calls :=
                   client_calls (bot_obj demo_ready) @ [dailyPoll demo_runtime demo_ready]\<rparr>,
                 awaiting := awaiting demo_ready @ [ThenReply (demo_message ''!PrAyEr'')]\<rparr>
           \<and> step demo_runtime (SendSettled (length (awaiting demo_ready)) RejectedOther)
               (step demo_runtime (Incoming (demo_message ''!PrAyEr'')) demo_ready) =
               demo_ready\<lparr>bot_obj := (bot_obj demo_ready)\<lparr>client_calls :=
                   client_calls (bot_obj demo_ready)
                     @ [dailyPoll demo_runtime demo_ready,
                        Reply (demo_message ''!PrAyEr'') ACK_TEXT]\<rparr>\<rparr>
        else step demo_runtime (Incoming (demo_message ''!PrAyEr'')) demo_ready =
               demo_ready\<lparr>bot_obj := (bot_obj demo_ready)\<lparr>client_calls :=
                   client_calls (bot_obj demo_ready)
                     @ [Reply (demo_message ''!PrAyEr'') ACK_TEXT]\<rparr>\<rparr>"
    using onMessage_follows_command_table
            [of demo_runtime "demo_message ''!PrAyEr''" demo_ready RejectedOther]
          demo_classify(2)
    by blast
  from this [unfolded if_P [OF ready]]
  have "step demo_runtime (SendSettled (length (awaiting demo_ready)) RejectedOther)
          (step demo_runtime (Incoming (demo_message ''!PrAyEr'')) demo_ready)
        = demo_ready\<lparr>bot_obj := (bot_obj demo_ready)\<lparr>client_calls :=
            client_calls (bot_obj demo_ready)
              @ [dailyPoll demo_runtime demo_ready, Reply (demo_message ''!PrAyEr'') ACK_TEXT]\<rparr>\<rparr>"
    by (rule conjunct2)
  then have triggered:
    "run demo_runtime [Incoming (demo_message ''!PrAyEr''), SendSettled 0 RejectedOther] demo_ready
       = demo_ready\<lparr>bot_obj := (bot_obj demo_ready)\<lparr>client_calls :=
           [dailyPoll demo_runtime demo_ready, Reply (demo_message ''!PrAyEr'') ACK_TEXT]\<rparr>\<rparr>"
    by (simp add: demo_ready_fields)
  have helped: "step demo_runtime (Incoming (demo_message ''!Help'')) demo_ready
       = demo_ready\<lparr>bot_obj := (bot_obj demo_ready)\<lparr>client_calls :=
           [Reply (demo_message ''!Help'') HELP_TEXT]\<rparr>\<rparr>"
    using onMessage_follows_command_table
            [of demo_runtime "demo_message ''!Help''" demo_ready RejectedOther]
    by (simp add: demo_classify demo_ready_fields)
  have ignored: "step demo_runtime (Incoming (demo_message ''!unknown'')) demo_ready = demo_ready"
    "step demo_runtime
        (Incoming \<lparr>msg_from = js ''status@broadcast'', msg_body = js ''!prayer''\<rparr>) demo_ready
       = demo_ready"
    using onMessage_follows_command_table
            [of demo_runtime "demo_message ''!unknown''" demo_ready RejectedOther]
          onMessage_follows_command_table
            [of demo_runtime "\<lparr>msg_from = js ''status@broadcast'', msg_body = js ''!prayer''\<rparr>"
                demo_ready RejectedOther]
    by (simp_all add: demo_classify)
  from triggered helped ignored show ?thesis
    by (simp add: demo_classify)
qed

section \<open>Stopping the scheduled task\<close>

text \<open>
  Claim C8. Stopping the scheduled task is idempotent and cannot fail: done twice it leaves
  the state that doing it once leaves, whether a task is referred to or not; so do two
  disconnected events in a row, and the tasks after two calls of \<open>stop\<close> are those after
  one. Without a task nothing changes; with one, that task does not run afterwards.
\<close>

theorem stopScheduledTask_idempotent:
  "stopScheduledTask (stopScheduledTask st) = stopScheduledTask st
   \<and> step rt (Disconnected r') (step rt (Disconnected r) st) = step rt (Disconnected r) st
   \<and> cron_tasks (stop (stop st)) = cron_tasks (stop st)
   \<and> (scheduledTask st = None \<longrightarrow> stopScheduledTask st = st)
   \<and> (scheduledTask st = Some i \<and> i < length (cron_tasks st) \<longrightarrow>
        \<not> running (cron_tasks (stopScheduledTask st) ! i))"
  by (auto simp: step_def onDisconnected_def stopScheduledTask_def stop_def Let_def
      split: option.splits)

theorem stopScheduledTask_idempotent_witness:
  "scheduledTask demo_ready = Some 0 \<and> 0 < length (cron_tasks demo_ready)
   \<and> running (cron_tasks demo_ready ! 0)
   \<and> \<not> running (cron_tasks (stopScheduledTask demo_ready) ! 0)
   \<and> stopScheduledTask (stopScheduledTask demo_ready) = stopScheduledTask demo_ready
   \<and> scheduledTask (newPrayerReminderBot demo_target) = None
   \<and> stopScheduledTask (newPrayerReminderBot demo_target) = newPrayerReminderBot demo_target"
  using stopScheduledTask_idempotent [of demo_ready demo_runtime "[]" "[]" 0]
        stopScheduledTask_idempotent [of "newPrayerReminderBot demo_target" demo_runtime "[]" "[]" 0]
  by (simp add: demo_ready_fields) (simp add: newPrayerReminderBot_def)

section \<open>Startup and fatal configuration\<close>




end
